theory Spec2Isabelle
  imports Complex_Main "HOL-Library.Multiset"
begin

section \<open>The survey table\<close>

text \<open>
  A cell of the table read by \<open>pd.read_csv\<close>: a number, a piece of text, or the
  missing-value marker NaN. Numbers are exact rationals; the rounding of binary floating
  point is not part of the model.
\<close>

datatype cell = Num rat | Txt string | NA

type_synonym row = "string \<Rightarrow> cell"

text \<open>
  A data frame: the column labels, and one row per respondent. A row gives the cell under
  every label; only the labels listed in \<open>columns\<close> are columns of the frame.
  \<open>bool_cols\<close> lists the columns to which \<open>pd.read_csv\<close> gives the dtype bool (every
  cell True or False); their cells are the numbers 1 and 0, as Python counts them.
\<close>

record frame =
  columns :: "string list"
  rows :: "row list"
  bool_cols :: "string list"

definition series :: "frame \<Rightarrow> string \<Rightarrow> cell list" where
  "series df col = map (\<lambda>r. r col) (rows df)"

definition care_satisfaction_cols :: "string list" where
  "care_satisfaction_cols =
     [''satisfaction_waiting_time'', ''Time with the health provider'',
      ''Privacy during examination'', ''Staff attitude'', ''Opening hours of the facility'',
      ''Quality of the advice and information'', ''satisfaction_procedure_treatment'',
      ''overall_satisfaction_rating'']"

definition facility_satisfaction_cols :: "string list" where
  "facility_satisfaction_cols =
     [''facility_cleanliness_rating'', ''facility_condition_rating'',
      ''facility_info_displayed_rating'', ''facility_private_talk_spaces_rating'',
      ''facility_ease_of_movement_rating'', ''facility_waiting_comfort_rating'']"

definition filter_cols :: "string list" where
  "filter_cols = [''health_facility'', ''respondent_sex'']"

definition all_satisfaction_cols :: "string list" where
  "all_satisfaction_cols = care_satisfaction_cols @ facility_satisfaction_cols"

section \<open>Cleaning and mapping\<close>

definition satisfaction_mapping :: "string \<Rightarrow> rat option" where
  "satisfaction_mapping =
     map_of [(''Satisfied'', 3), (''somewhat satisfied'', 2), (''Dissatisfied'', 1),
             (''Excellent'', 3), (''Good'', 2), (''Fair'', 1), (''Poor'', 0)]"

text \<open>
  \<open>pd.api.types.is_numeric_dtype\<close> of a column: a column read from a CSV file has a numeric
  dtype exactly when none of its cells is text. The dtype bool counts as numeric here.
\<close>

fun is_text :: "cell \<Rightarrow> bool" where
  "is_text (Txt s) = True"
| "is_text (Num x) = False"
| "is_text NA = False"

definition is_numeric_dtype :: "cell list \<Rightarrow> bool" where
  "is_numeric_dtype cells = list_all (\<lambda>c. \<not> is_text c) cells"

text \<open>\<open>Series.replace\<close> with a dictionary, on one cell: a text that is a key is replaced.\<close>

fun replace_cell :: "(string \<Rightarrow> rat option) \<Rightarrow> cell \<Rightarrow> cell" where
  "replace_cell m (Txt s) = (case m s of Some v \<Rightarrow> Num v | None \<Rightarrow> Txt s)"
| "replace_cell m (Num x) = Num x"
| "replace_cell m NA = NA"

text \<open>
  \<open>pd.to_numeric\<close> with \<open>errors='coerce'\<close>, on one cell. How pandas reads a number out of
  a text is the library's business: it is the parameter \<open>to_num\<close>, and a text it does not
  read becomes NaN.
\<close>

fun to_numeric_coerce :: "(string \<Rightarrow> rat option) \<Rightarrow> cell \<Rightarrow> cell" where
  "to_numeric_coerce to_num (Txt s) = (case to_num s of Some x \<Rightarrow> Num x | None \<Rightarrow> NA)"
| "to_numeric_coerce to_num (Num x) = Num x"
| "to_numeric_coerce to_num NA = NA"

text \<open>The assignment \<open>df[col] = f(df[col])\<close> for a cell-wise \<open>f\<close>.\<close>

definition assign_col :: "string \<Rightarrow> (cell \<Rightarrow> cell) \<Rightarrow> frame \<Rightarrow> frame" where
  "assign_col col f df = df\<lparr>rows := map (\<lambda>r. r(col := f (r col))) (rows df)\<rparr>"

text \<open>
  One round of the loop over \<open>all_satisfaction_cols\<close>. The second branch is the source's
  \<open>elif\<close>, whose inner test repeats the test that has just failed. The printed notices
  are not modelled.
\<close>

definition clean_step :: "(string \<Rightarrow> rat option) \<Rightarrow> frame \<Rightarrow> string \<Rightarrow> frame" where
  "clean_step to_num df col =
     (if col \<in> set (columns df) \<and> \<not> is_numeric_dtype (series df col)
      then assign_col col (to_numeric_coerce to_num)
             (assign_col col (replace_cell satisfaction_mapping) df)
      else if col \<in> set (columns df)
      then (if \<not> is_numeric_dtype (series df col)
            then assign_col col (to_numeric_coerce to_num) df
            else df)
      else df)"

definition clean :: "(string \<Rightarrow> rat option) \<Rightarrow> frame \<Rightarrow> frame" where
  "clean to_num df = foldl (clean_step to_num) df all_satisfaction_cols"

section \<open>Start of the process\<close>

text \<open>
  The file system is the argument \<open>file\<close>: \<open>None\<close> when the CSV file does not exist,
  otherwise the table \<open>pd.read_csv\<close> returns. Each \<open>exit()\<close> of the script is an error
  value that carries what the printed diagnostic names.
\<close>

datatype startup_error = File_not_found | Missing_columns "string list"

definition missing_cols :: "frame \<Rightarrow> string list" where
  "missing_cols df = filter (\<lambda>col. col \<notin> set (columns df)) (all_satisfaction_cols @ filter_cols)"

definition startup :: "(string \<Rightarrow> rat option) \<Rightarrow> frame option \<Rightarrow> startup_error + frame" where
  "startup to_num file =
     (case file of
        None \<Rightarrow> Inl File_not_found
      | Some df_orig \<Rightarrow>
          if missing_cols df_orig \<noteq> [] then Inl (Missing_columns (missing_cols df_orig))
          else Inr (clean to_num df_orig))"

section \<open>Filter options\<close>

text \<open>
  The values offered by a dropdown besides the sentinel: \<open>dropna().unique()\<close> of the column,
  in order of first appearance. The source sorts them, which only permutes the list.
\<close>

definition all_sentinel :: cell where
  "all_sentinel = Txt ''all''"

definition option_values :: "frame \<Rightarrow> string \<Rightarrow> cell list" where
  "option_values df col = remdups (filter (\<lambda>c. c \<noteq> NA) (series df col))"

section \<open>The callback\<close>

datatype trigger = Reset_button | Facility_dropdown | Sex_dropdown | No_trigger

definition isin :: "cell \<Rightarrow> cell list \<Rightarrow> bool" where
  "isin c vals = (c \<in> set vals)"

definition filter_facility :: "cell list \<Rightarrow> row list \<Rightarrow> row list" where
  "filter_facility selected_facilities rs =
     (if selected_facilities \<noteq> [] \<and> all_sentinel \<notin> set selected_facilities
      then filter (\<lambda>r. isin (r ''health_facility'') selected_facilities) rs
      else rs)"

definition filter_sex :: "cell list \<Rightarrow> row list \<Rightarrow> row list" where
  "filter_sex selected_sexes rs =
     (if selected_sexes \<noteq> [] \<and> all_sentinel \<notin> set selected_sexes
      then filter (\<lambda>r. isin (r ''respondent_sex'') selected_sexes) rs
      else rs)"

definition filtered_rows :: "frame \<Rightarrow> trigger \<Rightarrow> cell list \<Rightarrow> cell list \<Rightarrow> row list" where
  "filtered_rows df triggered_id selected_facilities selected_sexes =
     (if triggered_id = Reset_button then rows df
      else filter_sex selected_sexes (filter_facility selected_facilities (rows df)))"

text \<open>
  \<open>Series.mean\<close> and \<open>Series.max\<close> skip NaN; with no number left the result is NaN, here
  \<open>None\<close>. The mean of a series that holds a text raises.
\<close>

datatype callback_error = Type_error

fun numbers :: "cell list \<Rightarrow> rat list" where
  "numbers [] = []"
| "numbers (Num x # cells) = x # numbers cells"
| "numbers (Txt s # cells) = numbers cells"
| "numbers (NA # cells) = numbers cells"

definition mean_skipna :: "cell list \<Rightarrow> rat option" where
  "mean_skipna cells =
     (if numbers cells = [] then None
      else Some (sum_list (numbers cells) / of_nat (length (numbers cells))))"

definition series_mean :: "cell list \<Rightarrow> callback_error + rat option" where
  "series_mean cells = (if is_numeric_dtype cells then Inr (mean_skipna cells) else Inl Type_error)"

definition series_max :: "cell list \<Rightarrow> rat option" where
  "series_max cells =
     (case numbers cells of [] \<Rightarrow> None | x # xs \<Rightarrow> Some (fold max xs x))"

text \<open>
  \<open>select_dtypes(include=np.number)\<close> on a group of columns: the columns of an integer or
  floating dtype. Unlike \<open>is_numeric_dtype\<close> it leaves out the columns of dtype bool.
  Selecting rows by a boolean mask keeps the dtype of every column, so the dtypes are those
  of the whole table.
\<close>

definition select_dtypes_number :: "frame \<Rightarrow> string list \<Rightarrow> string list" where
  "select_dtypes_number df cols =
     filter (\<lambda>col. is_numeric_dtype (series df col) \<and> col \<notin> set (bool_cols df)) cols"

type_synonym means = "(string \<times> rat option) list"

definition column_means :: "frame \<Rightarrow> row list \<Rightarrow> string list \<Rightarrow> means" where
  "column_means df filtered_df cols =
     map (\<lambda>col. (col, mean_skipna (map (\<lambda>r. r col) filtered_df))) (select_dtypes_number df cols)"

text \<open>
  What the callback hands to the page. A figure is either the dictionary with only a title
  (a placeholder) or the bar chart \<open>px.bar\<close> draws from labels and values. The summary keeps
  the count, the mean and the denominator as values; the text \<open>(out of N)\<close> shows
  \<open>max_score or 'N/A'\<close>.
\<close>

datatype figure = Placeholder string | Bar string means

datatype out_of = Score "rat option" | N_A

datatype summary = No_data string | Summary nat "rat option" out_of

record outputs =
  summary_card :: summary
  care_chart :: figure
  facility_chart :: figure
  facility_value :: "cell list"
  sex_value :: "cell list"

definition max_score_or_na :: "rat option \<Rightarrow> out_of" where
  "max_score_or_na max_score = (if max_score = Some 0 then N_A else Score max_score)"

definition max_score_of :: "(string \<Rightarrow> rat option) \<Rightarrow> frame \<Rightarrow> rat option" where
  "max_score_of to_num df =
     (let numeric_overall = map (to_numeric_coerce to_num) (series df ''overall_satisfaction_rating'')
      in if numeric_overall \<noteq> [] then series_max numeric_overall else Some 3)"

definition bar_or_placeholder :: "string \<Rightarrow> string \<Rightarrow> means \<Rightarrow> figure" where
  "bar_or_placeholder title none ms = (if ms \<noteq> [] then Bar title ms else Placeholder none)"

text \<open>
  The callback. \<open>sort_values\<close> is \<open>Series.sort_values(ascending=False)\<close> of pandas, a
  parameter like \<open>to_num\<close>; what pandas computes for it is \<open>sort_values_descending\<close>
  below.
\<close>

definition update_dashboard ::
  "(string \<Rightarrow> rat option) \<Rightarrow> (means \<Rightarrow> means) \<Rightarrow> frame \<Rightarrow> trigger \<Rightarrow> cell list \<Rightarrow> cell list
     \<Rightarrow> callback_error + outputs" where
  "update_dashboard to_num sort_values df triggered_id selected_facilities selected_sexes =
     (let filtered_df = filtered_rows df triggered_id selected_facilities selected_sexes;
          reset_fac = (if triggered_id = Reset_button then [all_sentinel] else selected_facilities);
          reset_sex = (if triggered_id = Reset_button then [all_sentinel] else selected_sexes)
      in if filtered_df = []
         then Inr \<lparr>summary_card = No_data ''No data matches the selected filters.'',
                   care_chart = Placeholder ''No data to display'',
                   facility_chart = Placeholder ''No data to display'',
                   facility_value = reset_fac, sex_value = reset_sex\<rparr>
         else
           (case series_mean (map (\<lambda>r. r ''overall_satisfaction_rating'') filtered_df) of
              Inl e \<Rightarrow> Inl e
            | Inr avg_overall_satisfaction \<Rightarrow>
                Inr \<lparr>summary_card =
                       Summary (length filtered_df) avg_overall_satisfaction
                         (max_score_or_na (max_score_of to_num df)),
                     care_chart =
                       bar_or_placeholder ''Average Care Satisfaction Scores''
                         ''No numeric care data to display''
                         (sort_values (column_means df filtered_df care_satisfaction_cols)),
                     facility_chart =
                       bar_or_placeholder ''Average Facility Satisfaction Scores''
                         ''No numeric facility data to display''
                         (sort_values (column_means df filtered_df facility_satisfaction_cols)),
                     facility_value = reset_fac, sex_value = reset_sex\<rparr>))"

section \<open>Sorting the means\<close>

text \<open>
  The order \<open>sort_values(ascending=False)\<close> sorts by: larger means first, NaN last.
\<close>

fun mean_ge :: "rat option \<Rightarrow> rat option \<Rightarrow> bool" where
  "mean_ge a None = True"
| "mean_ge None (Some y) = False"
| "mean_ge (Some x) (Some y) = (y \<le> x)"

definition sorted_desc :: "means \<Rightarrow> bool" where
  "sorted_desc ms = sorted_wrt (\<lambda>a b. mean_ge (snd a) (snd b)) ms"

text \<open>
  What \<open>sort_values(ascending=False)\<close> does with every \<open>kind\<close>: the entries are
  rearranged into the order above.
\<close>

definition sort_values_contract :: "(means \<Rightarrow> means) \<Rightarrow> bool" where
  "sort_values_contract sort_values =
     (\<forall>ms. mset (sort_values ms) = mset ms \<and> sorted_desc (sort_values ms))"

text \<open>
  What pandas computes for the call of lines 180 and 181, with the default
  \<open>kind='quicksort'\<close> and \<open>na_position='last'\<close>. Its \<open>nargsort\<close> takes the NaN entries
  out, reverses the others, sorts them ascending with \<open>numpy.argsort\<close>, reverses the result
  and puts the NaN entries behind it, in their own order. For the groups of this script (8
  and 6 columns, below the 16 entries at which numpy starts to partition) the scalar
  quicksort of numpy is its closing insertion sort: from left to right, each entry moves
  left as long as it is strictly less than its left neighbour. The entries are sorted here
  together with their labels, where pandas sorts their positions and takes the entries at
  the end.
\<close>

fun non_nans :: "means \<Rightarrow> (string \<times> rat) list" where
  "non_nans [] = []"
| "non_nans ((col, Some x) # ms) = (col, x) # non_nans ms"
| "non_nans ((col, None) # ms) = non_nans ms"

fun nans :: "means \<Rightarrow> means" where
  "nans [] = []"
| "nans ((col, Some x) # ms) = nans ms"
| "nans ((col, None) # ms) = (col, None) # nans ms"

text \<open>
  One round of the insertion sort. The sorted entries to the left of \<open>x\<close> are given from
  right to left, nearest first, and returned so with \<open>x\<close> among them.
\<close>

fun move_left :: "string \<times> rat \<Rightarrow> (string \<times> rat) list \<Rightarrow> (string \<times> rat) list" where
  "move_left x [] = [x]"
| "move_left x (y # ys) = (if snd x < snd y then y # move_left x ys else x # y # ys)"

definition argsort_small :: "(string \<times> rat) list \<Rightarrow> (string \<times> rat) list" where
  "argsort_small xs = rev (foldl (\<lambda>sorted x. move_left x sorted) [] xs)"

definition sort_values_descending :: "means \<Rightarrow> means" where
  "sort_values_descending ms =
     map (\<lambda>(col, x). (col, Some x)) (rev (argsort_small (rev (non_nans ms)))) @ nans ms"

text \<open>
  A second sorter for the examples: it inserts the entries one after the other, from the
  last to the first, each in front of the entries that are not larger.
\<close>

fun insert_before_ties :: "string \<times> rat option \<Rightarrow> means \<Rightarrow> means" where
  "insert_before_ties x [] = [x]"
| "insert_before_ties x (y # ys) =
     (if mean_ge (snd x) (snd y) then x # y # ys else y # insert_before_ties x ys)"

definition stable_sort_values :: "means \<Rightarrow> means" where
  "stable_sort_values ms = foldr insert_before_ties ms []"

text \<open>A reader of numbers for the examples: a text of decimal digits, nothing else.\<close>

definition digit_value :: "char \<Rightarrow> nat option" where
  "digit_value c =
     (let n = (of_char c :: nat) in if 48 \<le> n \<and> n \<le> 57 then Some (n - 48) else None)"

fun digits_value :: "nat \<Rightarrow> string \<Rightarrow> nat option" where
  "digits_value acc [] = Some acc"
| "digits_value acc (c # cs) =
     (case digit_value c of None \<Rightarrow> None | Some d \<Rightarrow> digits_value (10 * acc + d) cs)"

definition read_digits :: "string \<Rightarrow> rat option" where
  "read_digits s = (if s = [] then None else map_option of_nat (digits_value 0 s))"

section \<open>Tables for the examples\<close>

text \<open>
  A respondent with the given facility, sex and ratings, every other cell missing, and a
  table that has all the required columns, none of them of dtype bool.
\<close>

definition survey_row :: "cell \<Rightarrow> cell \<Rightarrow> (string \<times> cell) list \<Rightarrow> row" where
  "survey_row fac sex ratings =
     (\<lambda>col. if col = ''health_facility'' then fac
            else if col = ''respondent_sex'' then sex
            else (case map_of ratings col of Some c \<Rightarrow> c | None \<Rightarrow> NA))"

definition survey_frame :: "row list \<Rightarrow> frame" where
  "survey_frame rs =
     \<lparr>columns = all_satisfaction_cols @ filter_cols, rows = rs, bool_cols = []\<rparr>"

section \<open>The sorters meet the contract\<close>

lemma mean_ge_total: "mean_ge a b \<or> mean_ge b a"
  by (cases a; cases b) auto

lemma mean_ge_trans: "mean_ge a b \<Longrightarrow> mean_ge b c \<Longrightarrow> mean_ge a c"
  by (cases a; cases b; cases c) auto

lemma mset_insert_before_ties: "mset (insert_before_ties x ms) = add_mset x (mset ms)"
  by (induction ms) auto

lemma set_insert_before_ties: "set (insert_before_ties x ms) = insert x (set ms)"
  by (induction ms) auto

lemma sorted_insert_before_ties:
  "sorted_desc ms \<Longrightarrow> sorted_desc (insert_before_ties x ms)"
proof (induction ms)
  case Nil
  then show ?case by (simp add: sorted_desc_def)
next
  case (Cons y ys)
  show ?case
  proof (cases "mean_ge (snd x) (snd y)")
    case True
    with Cons.prems show ?thesis
      by (auto simp: sorted_desc_def intro: mean_ge_trans)
  next
    case False
    then have "mean_ge (snd y) (snd x)" using mean_ge_total by blast
    with False Cons show ?thesis
      by (auto simp: sorted_desc_def set_insert_before_ties)
  qed
qed

lemma sorted_desc_Nil: "sorted_desc []"
  by (simp add: sorted_desc_def)

lemma stable_sort_values_contract: "sort_values_contract stable_sort_values"
proof -
  have "mset (foldr insert_before_ties ms []) = mset ms \<and> sorted_desc (foldr insert_before_ties ms [])" for ms
    by (induction ms) (simp_all add: mset_insert_before_ties sorted_insert_before_ties sorted_desc_Nil)
  then show ?thesis by (simp add: sort_values_contract_def stable_sort_values_def)
qed

section \<open>The cleaning loop leaves no text\<close>

lemma columns_assign_col: "columns (assign_col col f df) = columns df"
  by (simp add: assign_col_def)

lemma series_assign_col:
  "series (assign_col col f df) c = (if c = col then map f (series df col) else series df c)"
  by (simp add: assign_col_def series_def)

lemma columns_clean_step: "columns (clean_step to_num df col) = columns df"
  by (simp add: clean_step_def columns_assign_col)

lemma not_text_coerce: "\<not> is_text (to_numeric_coerce to_num c)"
  by (cases c) (auto split: option.splits)

lemma series_clean_step_same:
  "col \<in> set (columns df) \<Longrightarrow> is_numeric_dtype (series (clean_step to_num df col) col)"
  by (auto simp: clean_step_def series_assign_col is_numeric_dtype_def list_all_iff not_text_coerce)

lemma series_clean_step_numeric:
  "is_numeric_dtype (series df c) \<Longrightarrow> is_numeric_dtype (series (clean_step to_num df col) c)"
  by (auto simp: clean_step_def series_assign_col is_numeric_dtype_def list_all_iff not_text_coerce)

lemma columns_foldl_clean_step: "columns (foldl (clean_step to_num) df cols) = columns df"
  by (induction cols arbitrary: df) (simp_all add: columns_clean_step)

lemma numeric_foldl_clean_step:
  "is_numeric_dtype (series df c) \<Longrightarrow> is_numeric_dtype (series (foldl (clean_step to_num) df cols) c)"
  by (induction cols arbitrary: df) (simp_all add: series_clean_step_numeric)

lemma foldl_clean_step_numeric:
  "c \<in> set cols \<Longrightarrow> c \<in> set (columns df) \<Longrightarrow>
   is_numeric_dtype (series (foldl (clean_step to_num) df cols) c)"
proof (induction cols arbitrary: df)
  case Nil
  then show ?case by simp
next
  case (Cons a cols)
  show ?case
  proof (cases "c = a")
    case True
    with Cons.prems show ?thesis
      by (simp add: numeric_foldl_clean_step series_clean_step_same)
  next
    case False
    with Cons show ?thesis by (simp add: columns_clean_step)
  qed
qed

lemma missing_cols_empty: "missing_cols df = [] \<longleftrightarrow> set (all_satisfaction_cols @ filter_cols) \<subseteq> set (columns df)"
  by (auto simp: missing_cols_def filter_empty_conv)

text \<open>
  Claim C3. When the start of the process gets as far as the cleaned table, every cell of
  every satisfaction column (the care and the facility columns) of that table is a number
  or the missing-value marker: no text is left.
\<close>
theorem cleaned_columns_numeric_or_missing:
  assumes "startup to_num file = Inr df" and "col \<in> set all_satisfaction_cols"
  shows "\<forall>c \<in> set (series df col). c = NA \<or> (\<exists>x. c = Num x)"
proof -
  from assms(1) obtain df_orig where f: "file = Some df_orig"
    and m: "missing_cols df_orig = []" and d: "df = clean to_num df_orig"
    by (auto simp: startup_def split: option.splits if_splits)
  from m assms(2) have "col \<in> set (columns df_orig)"
    by (auto simp: missing_cols_empty)
  with assms(2) have "is_numeric_dtype (series df col)"
    unfolding d clean_def by (rule foldl_clean_step_numeric)
  then have "\<forall>c \<in> set (series df col). \<not> is_text c"
    by (simp add: is_numeric_dtype_def list_all_iff)
  moreover have "\<not> is_text c \<longleftrightarrow> c = NA \<or> (\<exists>x. c = Num x)" for c
    by (cases c) auto
  ultimately show ?thesis by blast
qed

lemmas column_defs = all_satisfaction_cols_def care_satisfaction_cols_def
  facility_satisfaction_cols_def filter_cols_def

lemmas example_defs = survey_row_def survey_frame_def

lemmas callback_defs = update_dashboard_def filtered_rows_def filter_facility_def filter_sex_def
  isin_def all_sentinel_def series_mean_def mean_skipna_def series_max_def
  select_dtypes_number_def column_means_def max_score_or_na_def max_score_of_def
  bar_or_placeholder_def series_def is_numeric_dtype_def

lemmas sorter_defs = stable_sort_values_def

lemmas reader_defs = read_digits_def digit_value_def

section \<open>Filtering\<close>

text \<open>
  Claim C9. For every pair of selections, filtering by facility and then by sex gives the
  same rows as filtering by sex and then by facility; the subset the callback computes is
  the one and the other.
\<close>
theorem filters_commute:
  "filter_sex selected_sexes (filter_facility selected_facilities rs) =
     filter_facility selected_facilities (filter_sex selected_sexes rs)
   \<and> filtered_rows df triggered_id selected_facilities selected_sexes =
     (if triggered_id = Reset_button then rows df
      else filter_facility selected_facilities (filter_sex selected_sexes (rows df)))"
  by (simp add: filter_sex_def filter_facility_def filtered_rows_def conj_commute)

theorem filters_commute_witness:
  "length (filter_sex [Txt ''M'']
     (filter_facility [Txt ''A'']
        [survey_row (Txt ''A'') (Txt ''M'') [], survey_row (Txt ''A'') (Txt ''F'') [],
         survey_row (Txt ''B'') (Txt ''M'') []])) = 1
   \<and> length (filter_facility [Txt ''A'']
     (filter_sex [Txt ''M'']
        [survey_row (Txt ''A'') (Txt ''M'') [], survey_row (Txt ''A'') (Txt ''F'') [],
         survey_row (Txt ''B'') (Txt ''M'') []])) = 1"
  using filters_commute [of "[Txt ''M'']" "[Txt ''A'']"
     "[survey_row (Txt ''A'') (Txt ''M'') [], survey_row (Txt ''A'') (Txt ''F'') [],
       survey_row (Txt ''B'') (Txt ''M'') []]"]
  by (simp add: filter_sex_def filter_facility_def isin_def all_sentinel_def survey_row_def)

section \<open>Reset\<close>

text \<open>
  Claim C2. Whatever selections come with it, an invocation triggered by the reset button
  returns what an invocation with another trigger returns for both selections set to the
  sentinel: the same summary, the same two charts and the same two filter values (or the
  same failure).
\<close>
theorem reset_same_as_all_selected:
  assumes "triggered_id \<noteq> Reset_button"
  shows "update_dashboard to_num sort_values df Reset_button selected_facilities selected_sexes =
         update_dashboard to_num sort_values df triggered_id [all_sentinel] [all_sentinel]"
  using assms
  by (simp add: update_dashboard_def filtered_rows_def filter_facility_def filter_sex_def)

theorem reset_same_as_all_selected_witness:
  "Sex_dropdown \<noteq> Reset_button \<and>
   update_dashboard read_digits stable_sort_values
     (survey_frame [survey_row (Txt ''A'') (Txt ''M'') [(''overall_satisfaction_rating'', Num 3)]])
     Reset_button [Txt ''B''] [Txt ''F''] =
   update_dashboard read_digits stable_sort_values
     (survey_frame [survey_row (Txt ''A'') (Txt ''M'') [(''overall_satisfaction_rating'', Num 3)]])
     Sex_dropdown [all_sentinel] [all_sentinel]
   \<and> map_sum id summary_card (update_dashboard read_digits stable_sort_values
     (survey_frame [survey_row (Txt ''A'') (Txt ''M'') [(''overall_satisfaction_rating'', Num 3)]])
     Reset_button [Txt ''B''] [Txt ''F'']) = Inr (Summary 1 (Some 3) (Score (Some 3)))"
  using reset_same_as_all_selected [of Sex_dropdown read_digits stable_sort_values
     "survey_frame [survey_row (Txt ''A'') (Txt ''M'') [(''overall_satisfaction_rating'', Num 3)]]"
     "[Txt ''B'']" "[Txt ''F'']"]
  by (simp add: callback_defs example_defs column_defs sorter_defs Let_def)

section \<open>An empty selection\<close>

text \<open>
  Claim C10. In an invocation that the reset button did not trigger, an empty selection for
  a dimension leaves that dimension unfiltered: the subset is the one of the sentinel, with
  both selections empty it is the whole table, and the summary and the charts are those of
  the sentinel; only the filter value handed back is the empty list itself.
\<close>
theorem empty_selection_is_bypassed:
  assumes "triggered_id \<noteq> Reset_button"
  shows "filtered_rows df triggered_id [] selected_sexes =
           filtered_rows df triggered_id [all_sentinel] selected_sexes
       \<and> filtered_rows df triggered_id selected_facilities [] =
           filtered_rows df triggered_id selected_facilities [all_sentinel]
       \<and> filtered_rows df triggered_id [] [] = rows df
       \<and> update_dashboard to_num sort_values df triggered_id [] selected_sexes =
           map_sum id (\<lambda>out. out\<lparr>facility_value := []\<rparr>)
             (update_dashboard to_num sort_values df triggered_id [all_sentinel] selected_sexes)
       \<and> update_dashboard to_num sort_values df triggered_id selected_facilities [] =
           map_sum id (\<lambda>out. out\<lparr>sex_value := []\<rparr>)
             (update_dashboard to_num sort_values df triggered_id selected_facilities [all_sentinel])"
  using assms
  by (simp add: update_dashboard_def filtered_rows_def filter_facility_def filter_sex_def Let_def
      split: sum.splits)

theorem empty_selection_is_bypassed_witness:
  "No_trigger \<noteq> Reset_button \<and>
   length (filtered_rows
     (survey_frame [survey_row (Txt ''A'') (Txt ''M'') [], survey_row (Txt ''B'') (Txt ''F'') []])
     No_trigger [] [Txt ''F'']) = 1
   \<and> length (filtered_rows
     (survey_frame [survey_row (Txt ''A'') (Txt ''M'') [], survey_row (Txt ''B'') (Txt ''F'') []])
     No_trigger [all_sentinel] [Txt ''F'']) = 1"
  using empty_selection_is_bypassed [of No_trigger
     "survey_frame [survey_row (Txt ''A'') (Txt ''M'') [], survey_row (Txt ''B'') (Txt ''F'') []]"
     "[Txt ''F'']" "[]" read_digits stable_sort_values]
  by (simp add: callback_defs example_defs column_defs)

section \<open>The sentinel and the offered values\<close>

lemma filter_isin_option_values:
  assumes "set sel = set (option_values df col)"
  shows "filter (\<lambda>r. isin (r col) sel) (rows df) = filter (\<lambda>r. r col \<noteq> NA) (rows df)"
proof (rule filter_cong [OF refl])
  fix r assume "r \<in> set (rows df)"
  then have "r col \<in> set (series df col)" by (simp add: series_def)
  with assms show "isin (r col) sel = (r col \<noteq> NA)"
    by (auto simp: isin_def option_values_def)
qed

lemma filter_not_missing_all:
  assumes "NA \<notin> set (series df col)"
  shows "filter (\<lambda>r. r col \<noteq> NA) (rows df) = rows df"
proof -
  have "r col \<noteq> NA" if "r \<in> set (rows df)" for r
  proof
    assume "r col = NA"
    moreover from that have "r col \<in> set (series df col)" by (simp add: series_def)
    ultimately show False using assms by simp
  qed
  then show ?thesis by (simp add: filter_id_conv)
qed

text \<open>
  Claim C5, amended. Selecting every value offered for a dimension, in any order, keeps the
  rows whose cell in that dimension is not missing (all rows when nothing is offered or a
  value is itself the sentinel). It is the subset of the sentinel when no row has a missing
  cell in that dimension.
\<close>
theorem every_value_selects_non_missing:
  assumes "set sel_fac = set (option_values df ''health_facility'')"
    and "set sel_sex = set (option_values df ''respondent_sex'')"
  shows "filter_facility sel_fac (rows df) =
           (if sel_fac = [] \<or> all_sentinel \<in> set sel_fac then rows df
            else filter (\<lambda>r. r ''health_facility'' \<noteq> NA) (rows df))
       \<and> filter_sex sel_sex (rows df) =
           (if sel_sex = [] \<or> all_sentinel \<in> set sel_sex then rows df
            else filter (\<lambda>r. r ''respondent_sex'' \<noteq> NA) (rows df))
       \<and> (NA \<notin> set (series df ''health_facility'') \<longrightarrow>
            filter_facility sel_fac (rows df) = filter_facility [all_sentinel] (rows df))
       \<and> (NA \<notin> set (series df ''respondent_sex'') \<longrightarrow>
            filter_sex sel_sex (rows df) = filter_sex [all_sentinel] (rows df))"
  using filter_isin_option_values [OF assms(1)] filter_isin_option_values [OF assms(2)]
    filter_not_missing_all [of df "''health_facility''"]
    filter_not_missing_all [of df "''respondent_sex''"]
  by (auto simp: filter_facility_def filter_sex_def)

theorem every_value_selects_non_missing_witness:
  "set [Txt ''A'', Txt ''B''] =
     set (option_values
       (survey_frame [survey_row (Txt ''B'') (Txt ''M'') [], survey_row (Txt ''A'') (Txt ''F'') []])
       ''health_facility'')
   \<and> set [Txt ''F'', Txt ''M''] =
     set (option_values
       (survey_frame [survey_row (Txt ''B'') (Txt ''M'') [], survey_row (Txt ''A'') (Txt ''F'') []])
       ''respondent_sex'')
   \<and> NA \<notin> set (series
       (survey_frame [survey_row (Txt ''B'') (Txt ''M'') [], survey_row (Txt ''A'') (Txt ''F'') []])
       ''health_facility'')
   \<and> filter_facility [Txt ''A'', Txt ''B'']
       (rows (survey_frame [survey_row (Txt ''B'') (Txt ''M'') [], survey_row (Txt ''A'') (Txt ''F'') []])) =
     filter_facility [all_sentinel]
       (rows (survey_frame [survey_row (Txt ''B'') (Txt ''M'') [], survey_row (Txt ''A'') (Txt ''F'') []]))"
proof -
  have f: "set [Txt ''A'', Txt ''B''] =
     set (option_values
       (survey_frame [survey_row (Txt ''B'') (Txt ''M'') [], survey_row (Txt ''A'') (Txt ''F'') []])
       ''health_facility'')"
    by (auto simp: option_values_def series_def example_defs)
  have s: "set [Txt ''F'', Txt ''M''] =
     set (option_values
       (survey_frame [survey_row (Txt ''B'') (Txt ''M'') [], survey_row (Txt ''A'') (Txt ''F'') []])
       ''respondent_sex'')"
    by (auto simp: option_values_def series_def example_defs)
  have n: "NA \<notin> set (series
       (survey_frame [survey_row (Txt ''B'') (Txt ''M'') [], survey_row (Txt ''A'') (Txt ''F'') []])
       ''health_facility'')"
    by (simp add: series_def example_defs)
  from every_value_selects_non_missing [OF f s] n f s show ?thesis by blast
qed

text \<open>
  Claim C5 as stated fails on a table with a respondent whose facility is missing: the only
  value offered is A, selecting it keeps one row, the sentinel keeps both.
\<close>
theorem all_differs_from_every_value:
  "option_values
     (survey_frame [survey_row (Txt ''A'') (Txt ''M'') [], survey_row NA (Txt ''F'') []])
     ''health_facility'' = [Txt ''A'']
   \<and> length (filter_facility [Txt ''A'']
       (rows (survey_frame [survey_row (Txt ''A'') (Txt ''M'') [], survey_row NA (Txt ''F'') []]))) = 1
   \<and> length (filter_facility [all_sentinel]
       (rows (survey_frame [survey_row (Txt ''A'') (Txt ''M'') [], survey_row NA (Txt ''F'') []]))) = 2"
  by (simp add: option_values_def series_def example_defs filter_facility_def isin_def
      all_sentinel_def)

section \<open>Fatal errors at start\<close>

text \<open>
  Claim C8. Without the file the start ends with the file-not-found diagnostic; with a table
  that lacks a required column it ends with the diagnostic that lists exactly the required
  columns that are missing; otherwise it goes on to the cleaned table. The required columns
  are the two filter columns and the care and facility columns, among them the overall
  rating.
\<close>
theorem startup_fatal_or_proceeds:
  "startup to_num None = Inl File_not_found
   \<and> (missing_cols df_orig \<noteq> [] \<longrightarrow>
        startup to_num (Some df_orig) = Inl (Missing_columns (missing_cols df_orig)))
   \<and> (missing_cols df_orig = [] \<longrightarrow> startup to_num (Some df_orig) = Inr (clean to_num df_orig))
   \<and> set (missing_cols df_orig) =
        {col \<in> set (all_satisfaction_cols @ filter_cols). col \<notin> set (columns df_orig)}
   \<and> set (all_satisfaction_cols @ filter_cols) =
        {''health_facility'', ''respondent_sex''} \<union> set care_satisfaction_cols
          \<union> set facility_satisfaction_cols
   \<and> ''overall_satisfaction_rating'' \<in> set care_satisfaction_cols"
proof -
  have "set (all_satisfaction_cols @ filter_cols) =
        {''health_facility'', ''respondent_sex''} \<union> set care_satisfaction_cols
          \<union> set facility_satisfaction_cols"
    by (auto simp: all_satisfaction_cols_def filter_cols_def)
  moreover have "''overall_satisfaction_rating'' \<in> set care_satisfaction_cols"
    by (simp add: care_satisfaction_cols_def)
  moreover have "set (missing_cols df_orig) =
        {col \<in> set (all_satisfaction_cols @ filter_cols). col \<notin> set (columns df_orig)}"
    unfolding missing_cols_def by (rule set_filter)
  ultimately show ?thesis by (simp add: startup_def)
qed

lemma missing_cols_survey_frame: "missing_cols (survey_frame rs) = []"
  by (simp add: missing_cols_empty survey_frame_def)

theorem startup_fatal_or_proceeds_witness:
  "startup read_digits None = Inl File_not_found
   \<and> missing_cols \<lparr>columns = [''health_facility''], rows = [], bool_cols = []\<rparr> \<noteq> []
   \<and> startup read_digits (Some \<lparr>columns = [''health_facility''], rows = [], bool_cols = []\<rparr>)
       = Inl (Missing_columns (all_satisfaction_cols @ [''respondent_sex'']))
   \<and> missing_cols (survey_frame []) = []
   \<and> startup read_digits (Some (survey_frame [])) = Inr (clean read_digits (survey_frame []))"
proof -
  have m: "missing_cols \<lparr>columns = [''health_facility''], rows = [], bool_cols = []\<rparr>
             = all_satisfaction_cols @ [''respondent_sex'']"
    by (simp add: missing_cols_def column_defs)
  then have n: "missing_cols \<lparr>columns = [''health_facility''], rows = [], bool_cols = []\<rparr> \<noteq> []"
    by simp
  from startup_fatal_or_proceeds [of read_digits "\<lparr>columns = [''health_facility''], rows = [], bool_cols = []\<rparr>"] n
  have "startup read_digits (Some \<lparr>columns = [''health_facility''], rows = [], bool_cols = []\<rparr>)
          = Inl (Missing_columns (missing_cols \<lparr>columns = [''health_facility''], rows = [], bool_cols = []\<rparr>))"
    by blast
  with m have a: "startup read_digits (Some \<lparr>columns = [''health_facility''], rows = [], bool_cols = []\<rparr>)
          = Inl (Missing_columns (all_satisfaction_cols @ [''respondent_sex'']))"
    by simp
  have e: "missing_cols (survey_frame []) = []"
    by (rule missing_cols_survey_frame)
  from startup_fatal_or_proceeds [of read_digits "survey_frame []"] e
  have b: "startup read_digits (Some (survey_frame [])) = Inr (clean read_digits (survey_frame []))"
    by blast
  from startup_fatal_or_proceeds [of read_digits "survey_frame []"]
  have c: "startup read_digits None = Inl File_not_found"
    by blast
  from a b c e n show ?thesis by blast
qed

section \<open>The denominator of the summary\<close>

lemma series_max_Max:
  "series_max cells = (if numbers cells = [] then None else Some (Max (set (numbers cells))))"
proof (cases "numbers cells")
  case Nil
  then show ?thesis by (simp add: series_max_def)
next
  case (Cons x xs)
  have "fold max xs x = Max (set (x # xs))"
    by (rule Max.set_eq_fold [symmetric])
  with Cons show ?thesis by (simp add: series_max_def)
qed

lemma set_filtered_rows: "set (filtered_rows df t fac sex) \<subseteq> set (rows df)"
  by (auto simp: filtered_rows_def filter_facility_def filter_sex_def)

lemma filtered_rows_nonempty: "filtered_rows df t fac sex \<noteq> [] \<Longrightarrow> rows df \<noteq> []"
  using set_filtered_rows [of df t fac sex] by (cases "rows df") auto

lemma update_dashboard_nonempty:
  assumes "filtered_rows df t fac sex \<noteq> []"
    and "update_dashboard to_num srt df t fac sex = Inr out"
  shows "out = \<lparr>summary_card =
                  Summary (length (filtered_rows df t fac sex))
                    (mean_skipna (map (\<lambda>r. r ''overall_satisfaction_rating'') (filtered_rows df t fac sex)))
                    (max_score_or_na (max_score_of to_num df)),
                care_chart =
                  bar_or_placeholder ''Average Care Satisfaction Scores''
                    ''No numeric care data to display''
                    (srt (column_means df (filtered_rows df t fac sex) care_satisfaction_cols)),
                facility_chart =
                  bar_or_placeholder ''Average Facility Satisfaction Scores''
                    ''No numeric facility data to display''
                    (srt (column_means df (filtered_rows df t fac sex) facility_satisfaction_cols)),
                facility_value = (if t = Reset_button then [all_sentinel] else fac),
                sex_value = (if t = Reset_button then [all_sentinel] else sex)\<rparr>"
  using assms
  by (auto simp: update_dashboard_def series_mean_def Let_def split: if_splits sum.splits)

text \<open>
  Claim C1, amended. When the filtered subset is not empty, the denominator of the summary
  depends on the whole table only: it is the largest number of the overall-rating column of
  the unfiltered table when that number is not 0, the text N/A when it is 0, and NaN when
  the column holds no number.
\<close>
theorem denominator_from_unfiltered_table:
  assumes "update_dashboard to_num srt df t fac sex = Inr out"
    and "filtered_rows df t fac sex \<noteq> []"
  shows "\<exists>avg. summary_card out =
           Summary (length (filtered_rows df t fac sex)) avg
             (let observed = numbers (map (to_numeric_coerce to_num)
                                        (series df ''overall_satisfaction_rating''))
              in if observed = [] then Score None
                 else if Max (set observed) = 0 then N_A
                 else Score (Some (Max (set observed))))"
proof -
  from assms(2) have "series df ''overall_satisfaction_rating'' \<noteq> []"
    by (simp add: series_def filtered_rows_nonempty)
  then have "max_score_or_na (max_score_of to_num df) =
      (let observed = numbers (map (to_numeric_coerce to_num)
                                 (series df ''overall_satisfaction_rating''))
       in if observed = [] then Score None
          else if Max (set observed) = 0 then N_A
          else Score (Some (Max (set observed))))"
    by (simp add: max_score_of_def max_score_or_na_def series_max_Max Let_def)
  with update_dashboard_nonempty [OF assms(2) assms(1)] show ?thesis by simp
qed

theorem denominator_from_unfiltered_table_witness:
  "update_dashboard read_digits stable_sort_values
     (survey_frame
        [survey_row (Txt ''A'') (Txt ''M'') [(''overall_satisfaction_rating'', Num 1)],
         survey_row (Txt ''B'') (Txt ''F'') [(''overall_satisfaction_rating'', Num 3)]])
     Facility_dropdown [Txt ''A''] [all_sentinel] =
   Inr \<lparr>summary_card = Summary 1 (Some 1) (Score (Some 3)),
        care_chart = Bar ''Average Care Satisfaction Scores''
           [(''overall_satisfaction_rating'', Some 1),
            (''satisfaction_waiting_time'', None),
            (''Time with the health provider'', None),
            (''Privacy during examination'', None),
            (''Staff attitude'', None),
            (''Opening hours of the facility'', None),
            (''Quality of the advice and information'', None),
            (''satisfaction_procedure_treatment'', None)],
        facility_chart = Bar ''Average Facility Satisfaction Scores''
           [(''facility_cleanliness_rating'', None),
            (''facility_condition_rating'', None),
            (''facility_info_displayed_rating'', None),
            (''facility_private_talk_spaces_rating'', None),
            (''facility_ease_of_movement_rating'', None),
            (''facility_waiting_comfort_rating'', None)],
        facility_value = [Txt ''A''], sex_value = [all_sentinel]\<rparr>
   \<and> length (filtered_rows
        (survey_frame
          [survey_row (Txt ''A'') (Txt ''M'') [(''overall_satisfaction_rating'', Num 1)],
           survey_row (Txt ''B'') (Txt ''F'') [(''overall_satisfaction_rating'', Num 3)]])
        Facility_dropdown [Txt ''A''] [all_sentinel]) = 1
   \<and> numbers (map (to_numeric_coerce read_digits)
        (series (survey_frame
          [survey_row (Txt ''A'') (Txt ''M'') [(''overall_satisfaction_rating'', Num 1)],
           survey_row (Txt ''B'') (Txt ''F'') [(''overall_satisfaction_rating'', Num 3)]])
         ''overall_satisfaction_rating'')) = [1, 3]"
proof -
  let ?df = "survey_frame
        [survey_row (Txt ''A'') (Txt ''M'') [(''overall_satisfaction_rating'', Num 1)],
         survey_row (Txt ''B'') (Txt ''F'') [(''overall_satisfaction_rating'', Num 3)]]"
  have e: "update_dashboard read_digits stable_sort_values ?df
             Facility_dropdown [Txt ''A''] [all_sentinel] =
   Inr \<lparr>summary_card = Summary 1 (Some 1) (Score (Some 3)),
        care_chart = Bar ''Average Care Satisfaction Scores''
           [(''overall_satisfaction_rating'', Some 1),
            (''satisfaction_waiting_time'', None),
            (''Time with the health provider'', None),
            (''Privacy during examination'', None),
            (''Staff attitude'', None),
            (''Opening hours of the facility'', None),
            (''Quality of the advice and information'', None),
            (''satisfaction_procedure_treatment'', None)],
        facility_chart = Bar ''Average Facility Satisfaction Scores''
           [(''facility_cleanliness_rating'', None),
            (''facility_condition_rating'', None),
            (''facility_info_displayed_rating'', None),
            (''facility_private_talk_spaces_rating'', None),
            (''facility_ease_of_movement_rating'', None),
            (''facility_waiting_comfort_rating'', None)],
        facility_value = [Txt ''A''], sex_value = [all_sentinel]\<rparr>"
    by (simp add: callback_defs example_defs column_defs sorter_defs Let_def)
  have l: "length (filtered_rows ?df Facility_dropdown [Txt ''A''] [all_sentinel]) = 1"
    by (simp add: filtered_rows_def filter_facility_def filter_sex_def isin_def all_sentinel_def
        example_defs)
  then have f: "filtered_rows ?df Facility_dropdown [Txt ''A''] [all_sentinel] \<noteq> []"
    by auto
  have n: "numbers (map (to_numeric_coerce read_digits)
             (series ?df ''overall_satisfaction_rating'')) = [1, 3]"
    by (simp add: series_def example_defs)
  from denominator_from_unfiltered_table [OF e f] e l n show ?thesis by simp
qed

text \<open>
  Claim C1 as stated fails on a table whose only overall rating is 0: the maximum observed
  is 0, the summary shows N/A.
\<close>
theorem denominator_not_observed_maximum:
  "map_sum id summary_card
     (update_dashboard read_digits stable_sort_values
        (survey_frame [survey_row (Txt ''A'') (Txt ''M'') [(''overall_satisfaction_rating'', Num 0)]])
        No_trigger [all_sentinel] [all_sentinel]) = Inr (Summary 1 (Some 0) N_A)
   \<and> series_max (series
        (survey_frame [survey_row (Txt ''A'') (Txt ''M'') [(''overall_satisfaction_rating'', Num 0)]])
        ''overall_satisfaction_rating'') = Some 0"
  by (simp add: callback_defs example_defs column_defs sorter_defs Let_def)

theorem cleaned_columns_numeric_or_missing_witness:
  "startup read_digits
     (Some (survey_frame
        [survey_row (Txt ''A'') (Txt ''M'') [(''Staff attitude'', Txt ''Satisfied'')],
         survey_row (Txt ''A'') (Txt ''F'') [(''Staff attitude'', Txt ''unhappy'')],
         survey_row (Txt ''B'') (Txt ''F'') [(''Staff attitude'', Txt ''12'')]])) =
   Inr (clean read_digits (survey_frame
        [survey_row (Txt ''A'') (Txt ''M'') [(''Staff attitude'', Txt ''Satisfied'')],
         survey_row (Txt ''A'') (Txt ''F'') [(''Staff attitude'', Txt ''unhappy'')],
         survey_row (Txt ''B'') (Txt ''F'') [(''Staff attitude'', Txt ''12'')]]))
   \<and> ''Staff attitude'' \<in> set all_satisfaction_cols
   \<and> Txt ''unhappy'' \<notin> set (series (clean read_digits (survey_frame
        [survey_row (Txt ''A'') (Txt ''M'') [(''Staff attitude'', Txt ''Satisfied'')],
         survey_row (Txt ''A'') (Txt ''F'') [(''Staff attitude'', Txt ''unhappy'')],
         survey_row (Txt ''B'') (Txt ''F'') [(''Staff attitude'', Txt ''12'')]])) ''Staff attitude'')
   \<and> series (clean read_digits (survey_frame
        [survey_row (Txt ''A'') (Txt ''M'') [(''Staff attitude'', Txt ''Satisfied'')],
         survey_row (Txt ''A'') (Txt ''F'') [(''Staff attitude'', Txt ''unhappy'')],
         survey_row (Txt ''B'') (Txt ''F'') [(''Staff attitude'', Txt ''12'')]])) ''Staff attitude''
       = [Num 3, NA, Num 12]"
proof -
  let ?df = "survey_frame
        [survey_row (Txt ''A'') (Txt ''M'') [(''Staff attitude'', Txt ''Satisfied'')],
         survey_row (Txt ''A'') (Txt ''F'') [(''Staff attitude'', Txt ''unhappy'')],
         survey_row (Txt ''B'') (Txt ''F'') [(''Staff attitude'', Txt ''12'')]]"
  have s: "startup read_digits (Some ?df) = Inr (clean read_digits ?df)"
    by (simp add: startup_def missing_cols_survey_frame)
  have m: "''Staff attitude'' \<in> set all_satisfaction_cols"
    by (simp add: column_defs)
  have v: "series (clean read_digits ?df) ''Staff attitude'' = [Num 3, NA, Num 12]"
    by (simp add: clean_def clean_step_def column_defs example_defs series_def assign_col_def
        is_numeric_dtype_def satisfaction_mapping_def reader_defs)
  from cleaned_columns_numeric_or_missing [OF s m]
  have "Txt ''unhappy'' \<notin> set (series (clean read_digits ?df) ''Staff attitude'')"
    by blast
  with s m v show ?thesis by blast
qed

section \<open>Degraded outputs\<close>

lemma sort_values_contract_Nil: "sort_values_contract srt \<Longrightarrow> srt [] = []"
  by (metis mset_zero_iff_right sort_values_contract_def)

lemma column_means_Nil:
  "select_dtypes_number df cols = [] \<Longrightarrow> column_means df filtered_df cols = []"
  by (simp add: column_means_def)

lemma update_dashboard_empty:
  assumes "filtered_rows df t fac sex = []"
  shows "update_dashboard to_num srt df t fac sex =
      Inr \<lparr>summary_card = No_data ''No data matches the selected filters.'',
           care_chart = Placeholder ''No data to display'',
           facility_chart = Placeholder ''No data to display'',
           facility_value = (if t = Reset_button then [all_sentinel] else fac),
           sex_value = (if t = Reset_button then [all_sentinel] else sex)\<rparr>"
  using assms by (simp add: update_dashboard_def Let_def)

lemma update_dashboard_returns:
  assumes "filtered_rows df t fac sex \<noteq> []"
    and "is_numeric_dtype (map (\<lambda>r. r ''overall_satisfaction_rating'') (filtered_rows df t fac sex))"
  shows "\<exists>out. update_dashboard to_num srt df t fac sex = Inr out"
  using assms by (simp add: update_dashboard_def Let_def series_mean_def)

lemma bool_cols_assign_col: "bool_cols (assign_col col f df) = bool_cols df"
  by (simp add: assign_col_def)

lemma bool_cols_clean_step: "bool_cols (clean_step to_num df col) = bool_cols df"
  by (simp add: clean_step_def bool_cols_assign_col)

lemma bool_cols_clean: "bool_cols (clean to_num df) = bool_cols df"
proof -
  have "bool_cols (foldl (clean_step to_num) df cols) = bool_cols df" for cols
    by (induction cols arbitrary: df) (simp_all add: bool_cols_clean_step)
  then show ?thesis by (simp add: clean_def)
qed

lemma length_rows_clean_step: "length (rows (clean_step to_num df col)) = length (rows df)"
  by (simp add: clean_step_def assign_col_def)

lemma length_rows_clean: "length (rows (clean to_num df)) = length (rows df)"
proof -
  have "length (rows (foldl (clean_step to_num) df cols)) = length (rows df)" for cols
    by (induction cols arbitrary: df) (simp_all add: length_rows_clean_step)
  then show ?thesis by (simp add: clean_def)
qed

lemma startup_numeric:
  assumes "startup to_num file = Inr df" and "col \<in> set all_satisfaction_cols"
  shows "is_numeric_dtype (series df col)"
proof -
  from assms(1) obtain df_orig where m: "missing_cols df_orig = []"
    and d: "df = clean to_num df_orig"
    by (auto simp: startup_def split: option.splits if_splits)
  from m assms(2) have "col \<in> set (columns df_orig)"
    by (auto simp: missing_cols_empty)
  with assms(2) show ?thesis
    unfolding d clean_def by (rule foldl_clean_step_numeric)
qed

lemma numeric_filtered_rows:
  assumes "is_numeric_dtype (series df col)"
  shows "is_numeric_dtype (map (\<lambda>r. r col) (filtered_rows df t fac sex))"
  using assms set_filtered_rows [of df t fac sex]
  by (auto simp: is_numeric_dtype_def list_all_iff series_def)

text \<open>
  Claim C6. When the filtered subset is empty the callback returns the no-data message and
  two placeholder figures. On the table the start of the process hands to it the callback
  never fails, and the chart of a column group without a numeric column (all its columns of
  dtype bool) is a placeholder.
\<close>

theorem empty_subset_and_group_degrade:
  "(filtered_rows df t fac sex = [] \<longrightarrow>
      update_dashboard to_num srt df t fac sex =
        Inr \<lparr>summary_card = No_data ''No data matches the selected filters.'',
             care_chart = Placeholder ''No data to display'',
             facility_chart = Placeholder ''No data to display'',
             facility_value = (if t = Reset_button then [all_sentinel] else fac),
             sex_value = (if t = Reset_button then [all_sentinel] else sex)\<rparr>)
   \<and> (startup to_num file = Inr df \<and> sort_values_contract srt \<longrightarrow>
      (\<exists>out. update_dashboard to_num srt df t fac sex = Inr out \<and>
         (select_dtypes_number df care_satisfaction_cols = [] \<longrightarrow>
            care_chart out =
              Placeholder (if filtered_rows df t fac sex = [] then ''No data to display''
                           else ''No numeric care data to display'')) \<and>
         (select_dtypes_number df facility_satisfaction_cols = [] \<longrightarrow>
            facility_chart out =
              Placeholder (if filtered_rows df t fac sex = [] then ''No data to display''
                           else ''No numeric facility data to display''))))"
proof (intro conjI impI)
  assume "filtered_rows df t fac sex = []"
  then show "update_dashboard to_num srt df t fac sex =
        Inr \<lparr>summary_card = No_data ''No data matches the selected filters.'',
             care_chart = Placeholder ''No data to display'',
             facility_chart = Placeholder ''No data to display'',
             facility_value = (if t = Reset_button then [all_sentinel] else fac),
             sex_value = (if t = Reset_button then [all_sentinel] else sex)\<rparr>"
    by (rule update_dashboard_empty)
next
  assume a: "startup to_num file = Inr df \<and> sort_values_contract srt"
  then have nil: "srt [] = []" by (simp add: sort_values_contract_Nil)
  show "\<exists>out. update_dashboard to_num srt df t fac sex = Inr out \<and>
         (select_dtypes_number df care_satisfaction_cols = [] \<longrightarrow>
            care_chart out =
              Placeholder (if filtered_rows df t fac sex = [] then ''No data to display''
                           else ''No numeric care data to display'')) \<and>
         (select_dtypes_number df facility_satisfaction_cols = [] \<longrightarrow>
            facility_chart out =
              Placeholder (if filtered_rows df t fac sex = [] then ''No data to display''
                           else ''No numeric facility data to display''))"
  proof (cases "filtered_rows df t fac sex = []")
    case True
    then show ?thesis
      using update_dashboard_empty [OF True, of to_num srt] by simp
  next
    case False
    have "''overall_satisfaction_rating'' \<in> set all_satisfaction_cols"
      by (simp add: all_satisfaction_cols_def care_satisfaction_cols_def)
    with a have "is_numeric_dtype (series df ''overall_satisfaction_rating'')"
      using startup_numeric by blast
    then have "is_numeric_dtype
        (map (\<lambda>r. r ''overall_satisfaction_rating'') (filtered_rows df t fac sex))"
      by (rule numeric_filtered_rows)
    with False obtain out where out: "update_dashboard to_num srt df t fac sex = Inr out"
      using update_dashboard_returns by blast
    note eq = update_dashboard_nonempty [OF False out]
    have c: "care_chart out = Placeholder ''No numeric care data to display''"
      if "select_dtypes_number df care_satisfaction_cols = []"
      using that nil by (subst eq) (simp add: column_means_Nil bar_or_placeholder_def)
    have f: "facility_chart out = Placeholder ''No numeric facility data to display''"
      if "select_dtypes_number df facility_satisfaction_cols = []"
      using that nil by (subst eq) (simp add: column_means_Nil bar_or_placeholder_def)
    from False out c f show ?thesis by simp
  qed
qed

theorem empty_subset_and_group_degrade_witness:
  "filtered_rows
     (survey_frame [survey_row (Txt ''A'') (Txt ''M'') [(''overall_satisfaction_rating'', Num 3)]])
     Facility_dropdown [Txt ''C''] [all_sentinel] = []
   \<and> update_dashboard read_digits stable_sort_values
     (survey_frame [survey_row (Txt ''A'') (Txt ''M'') [(''overall_satisfaction_rating'', Num 3)]])
     Facility_dropdown [Txt ''C''] [all_sentinel] =
     Inr \<lparr>summary_card = No_data ''No data matches the selected filters.'',
          care_chart = Placeholder ''No data to display'',
          facility_chart = Placeholder ''No data to display'',
          facility_value = [Txt ''C''], sex_value = [all_sentinel]\<rparr>
   \<and> startup read_digits
       (Some ((survey_frame
         [survey_row (Txt ''A'') (Txt ''M'')
            [(''overall_satisfaction_rating'', Num 3), (''facility_cleanliness_rating'', Num 1),
             (''facility_condition_rating'', Num 0), (''facility_info_displayed_rating'', Num 1),
             (''facility_private_talk_spaces_rating'', Num 0),
             (''facility_ease_of_movement_rating'', Num 1),
             (''facility_waiting_comfort_rating'', Num 1)]])
          \<lparr>bool_cols := facility_satisfaction_cols\<rparr>)) =
     Inr (clean read_digits ((survey_frame
         [survey_row (Txt ''A'') (Txt ''M'')
            [(''overall_satisfaction_rating'', Num 3), (''facility_cleanliness_rating'', Num 1),
             (''facility_condition_rating'', Num 0), (''facility_info_displayed_rating'', Num 1),
             (''facility_private_talk_spaces_rating'', Num 0),
             (''facility_ease_of_movement_rating'', Num 1),
             (''facility_waiting_comfort_rating'', Num 1)]])
          \<lparr>bool_cols := facility_satisfaction_cols\<rparr>))
   \<and> sort_values_contract stable_sort_values
   \<and> select_dtypes_number
       (clean read_digits ((survey_frame
         [survey_row (Txt ''A'') (Txt ''M'')
            [(''overall_satisfaction_rating'', Num 3), (''facility_cleanliness_rating'', Num 1),
             (''facility_condition_rating'', Num 0), (''facility_info_displayed_rating'', Num 1),
             (''facility_private_talk_spaces_rating'', Num 0),
             (''facility_ease_of_movement_rating'', Num 1),
             (''facility_waiting_comfort_rating'', Num 1)]])
          \<lparr>bool_cols := facility_satisfaction_cols\<rparr>))
       facility_satisfaction_cols = []
   \<and> length (filtered_rows
       (clean read_digits ((survey_frame
         [survey_row (Txt ''A'') (Txt ''M'')
            [(''overall_satisfaction_rating'', Num 3), (''facility_cleanliness_rating'', Num 1),
             (''facility_condition_rating'', Num 0), (''facility_info_displayed_rating'', Num 1),
             (''facility_private_talk_spaces_rating'', Num 0),
             (''facility_ease_of_movement_rating'', Num 1),
             (''facility_waiting_comfort_rating'', Num 1)]])
          \<lparr>bool_cols := facility_satisfaction_cols\<rparr>))
       No_trigger [all_sentinel] [all_sentinel]) = 1
   \<and> map_sum id facility_chart
       (update_dashboard read_digits stable_sort_values
         (clean read_digits ((survey_frame
           [survey_row (Txt ''A'') (Txt ''M'')
              [(''overall_satisfaction_rating'', Num 3), (''facility_cleanliness_rating'', Num 1),
               (''facility_condition_rating'', Num 0), (''facility_info_displayed_rating'', Num 1),
               (''facility_private_talk_spaces_rating'', Num 0),
               (''facility_ease_of_movement_rating'', Num 1),
               (''facility_waiting_comfort_rating'', Num 1)]])
            \<lparr>bool_cols := facility_satisfaction_cols\<rparr>))
         No_trigger [all_sentinel] [all_sentinel]) =
     Inr (Placeholder ''No numeric facility data to display'')"
proof -
  let ?one = "survey_frame
     [survey_row (Txt ''A'') (Txt ''M'') [(''overall_satisfaction_rating'', Num 3)]]"
  let ?file = "(survey_frame
         [survey_row (Txt ''A'') (Txt ''M'')
            [(''overall_satisfaction_rating'', Num 3), (''facility_cleanliness_rating'', Num 1),
             (''facility_condition_rating'', Num 0), (''facility_info_displayed_rating'', Num 1),
             (''facility_private_talk_spaces_rating'', Num 0),
             (''facility_ease_of_movement_rating'', Num 1),
             (''facility_waiting_comfort_rating'', Num 1)]])
          \<lparr>bool_cols := facility_satisfaction_cols\<rparr>"
  let ?df = "clean read_digits ?file"
  have e: "filtered_rows ?one Facility_dropdown [Txt ''C''] [all_sentinel] = []"
    by (simp add: filtered_rows_def filter_facility_def filter_sex_def isin_def all_sentinel_def
        example_defs)
  from empty_subset_and_group_degrade
         [of ?one Facility_dropdown "[Txt ''C'']" "[all_sentinel]" read_digits stable_sort_values] e
  have a: "update_dashboard read_digits stable_sort_values ?one
             Facility_dropdown [Txt ''C''] [all_sentinel] =
     Inr \<lparr>summary_card = No_data ''No data matches the selected filters.'',
          care_chart = Placeholder ''No data to display'',
          facility_chart = Placeholder ''No data to display'',
          facility_value = [Txt ''C''], sex_value = [all_sentinel]\<rparr>"
    by simp
  have "missing_cols ?file = []"
    by (simp add: missing_cols_empty survey_frame_def)
  then have s: "startup read_digits (Some ?file) = Inr ?df"
    by (simp add: startup_def)
  have g: "select_dtypes_number ?df facility_satisfaction_cols = []"
    by (simp add: select_dtypes_number_def bool_cols_clean filter_empty_conv)
  have "filtered_rows ?df No_trigger [all_sentinel] [all_sentinel] = rows ?df"
    by (simp add: filtered_rows_def filter_facility_def filter_sex_def)
  then have l: "length (filtered_rows ?df No_trigger [all_sentinel] [all_sentinel]) = 1"
    by (simp add: length_rows_clean survey_frame_def)
  then have n: "filtered_rows ?df No_trigger [all_sentinel] [all_sentinel] \<noteq> []"
    by auto
  from empty_subset_and_group_degrade
         [of ?df No_trigger "[all_sentinel]" "[all_sentinel]" read_digits stable_sort_values
             "Some ?file"]
       s g n stable_sort_values_contract
  obtain out where
    "update_dashboard read_digits stable_sort_values ?df
       No_trigger [all_sentinel] [all_sentinel] = Inr out"
    "facility_chart out = Placeholder ''No numeric facility data to display''"
    by auto
  then have b: "map_sum id facility_chart (update_dashboard read_digits stable_sort_values ?df
       No_trigger [all_sentinel] [all_sentinel]) =
       Inr (Placeholder ''No numeric facility data to display'')"
    by simp
  from e a s stable_sort_values_contract g l b show ?thesis by blast
qed

section \<open>Means\<close>

lemma sort_values_contract_set: "sort_values_contract srt \<Longrightarrow> set (srt ms) = set ms"
  by (metis mset_eq_setD sort_values_contract_def)

lemma sort_values_contract_Nil_iff: "sort_values_contract srt \<Longrightarrow> srt ms = [] \<longleftrightarrow> ms = []"
  by (metis mset_zero_iff sort_values_contract_def)

lemma column_means_Nil_iff:
  "column_means df filtered_df cols = [] \<longleftrightarrow> select_dtypes_number df cols = []"
  by (simp add: column_means_def)

lemma set_column_means:
  "set (column_means df filtered_df cols) =
     (\<lambda>col. (col, mean_skipna (map (\<lambda>r. r col) filtered_df))) ` set (select_dtypes_number df cols)"
  by (simp add: column_means_def)

lemma bar_or_placeholder_Bar:
  "bar_or_placeholder title none ms = Bar title' ms' \<longleftrightarrow> ms \<noteq> [] \<and> title' = title \<and> ms' = ms"
  by (auto simp: bar_or_placeholder_def)

lemma bar_or_placeholder_Placeholder:
  "bar_or_placeholder title none ms = Placeholder none' \<longleftrightarrow> ms = [] \<and> none' = none"
  by (auto simp: bar_or_placeholder_def)

text \<open>
  Claim C7, amended. In the outputs for a subset that is not empty, the mean of the summary
  and the mean charted for each numeric column of a group are the arithmetic average of the
  numbers of that column in the filtered subset, missing cells left out, and NaN when the
  column has no number there. A chart is the placeholder exactly when its group has no
  numeric column; columns without numbers are charted with NaN.
\<close>

theorem means_skip_missing_entries:
  fixes df :: frame and t :: trigger and fac sex :: "cell list"
  defines "filtered_df \<equiv> filtered_rows df t fac sex"
  assumes "sort_values_contract srt"
    and "update_dashboard to_num srt df t fac sex = Inr out"
    and "filtered_df \<noteq> []"
  shows "(\<exists>d. summary_card out =
            Summary (length filtered_df)
              (mean_skipna (map (\<lambda>r. r ''overall_satisfaction_rating'') filtered_df)) d)
       \<and> (\<forall>title ms. care_chart out = Bar title ms \<longrightarrow>
            set ms = (\<lambda>col. (col, mean_skipna (map (\<lambda>r. r col) filtered_df)))
                       ` set (select_dtypes_number df care_satisfaction_cols))
       \<and> (\<forall>title ms. facility_chart out = Bar title ms \<longrightarrow>
            set ms = (\<lambda>col. (col, mean_skipna (map (\<lambda>r. r col) filtered_df)))
                       ` set (select_dtypes_number df facility_satisfaction_cols))
       \<and> (care_chart out = Placeholder ''No numeric care data to display'' \<longleftrightarrow>
            select_dtypes_number df care_satisfaction_cols = [])
       \<and> (facility_chart out = Placeholder ''No numeric facility data to display'' \<longleftrightarrow>
            select_dtypes_number df facility_satisfaction_cols = [])
       \<and> (\<forall>cells. mean_skipna cells =
            (if numbers cells = [] then None
             else Some (sum_list (numbers cells) / of_nat (length (numbers cells)))))"
proof -
  from assms(4) assms(3)
  have eq: "out = \<lparr>summary_card =
                  Summary (length (filtered_rows df t fac sex))
                    (mean_skipna (map (\<lambda>r. r ''overall_satisfaction_rating'') (filtered_rows df t fac sex)))
                    (max_score_or_na (max_score_of to_num df)),
                care_chart =
                  bar_or_placeholder ''Average Care Satisfaction Scores''
                    ''No numeric care data to display''
                    (srt (column_means df (filtered_rows df t fac sex) care_satisfaction_cols)),
                facility_chart =
                  bar_or_placeholder ''Average Facility Satisfaction Scores''
                    ''No numeric facility data to display''
                    (srt (column_means df (filtered_rows df t fac sex) facility_satisfaction_cols)),
                facility_value = (if t = Reset_button then [all_sentinel] else fac),
                sex_value = (if t = Reset_button then [all_sentinel] else sex)\<rparr>"
    unfolding filtered_df_def by (rule update_dashboard_nonempty)
  have s: "\<exists>d. summary_card out =
            Summary (length filtered_df)
              (mean_skipna (map (\<lambda>r. r ''overall_satisfaction_rating'') filtered_df)) d"
    by (subst eq) (simp add: filtered_df_def)
  have c: "care_chart out =
             bar_or_placeholder ''Average Care Satisfaction Scores''
               ''No numeric care data to display''
               (srt (column_means df filtered_df care_satisfaction_cols))"
    by (subst eq) (simp add: filtered_df_def)
  have f: "facility_chart out =
             bar_or_placeholder ''Average Facility Satisfaction Scores''
               ''No numeric facility data to display''
               (srt (column_means df filtered_df facility_satisfaction_cols))"
    by (subst eq) (simp add: filtered_df_def)
  have cb: "\<forall>title ms. care_chart out = Bar title ms \<longrightarrow>
            set ms = (\<lambda>col. (col, mean_skipna (map (\<lambda>r. r col) filtered_df)))
                       ` set (select_dtypes_number df care_satisfaction_cols)"
    using sort_values_contract_set [OF assms(2)]
    by (auto simp only: c bar_or_placeholder_Bar set_column_means)
  have fb: "\<forall>title ms. facility_chart out = Bar title ms \<longrightarrow>
            set ms = (\<lambda>col. (col, mean_skipna (map (\<lambda>r. r col) filtered_df)))
                       ` set (select_dtypes_number df facility_satisfaction_cols)"
    using sort_values_contract_set [OF assms(2)]
    by (auto simp only: f bar_or_placeholder_Bar set_column_means)
  have cp: "care_chart out = Placeholder ''No numeric care data to display'' \<longleftrightarrow>
            select_dtypes_number df care_satisfaction_cols = []"
    by (simp only: c bar_or_placeholder_Placeholder sort_values_contract_Nil_iff [OF assms(2)]
        column_means_Nil_iff simp_thms)
  have fp: "facility_chart out = Placeholder ''No numeric facility data to display'' \<longleftrightarrow>
            select_dtypes_number df facility_satisfaction_cols = []"
    by (simp only: f bar_or_placeholder_Placeholder sort_values_contract_Nil_iff [OF assms(2)]
        column_means_Nil_iff simp_thms)
  have m: "\<forall>cells. mean_skipna cells =
            (if numbers cells = [] then None
             else Some (sum_list (numbers cells) / of_nat (length (numbers cells))))"
    by (simp add: mean_skipna_def)
  from s cb fb cp fp m show ?thesis by blast
qed

theorem means_skip_missing_entries_witness:
  "sort_values_contract stable_sort_values
   \<and> update_dashboard read_digits stable_sort_values
       (survey_frame
         [survey_row (Txt ''A'') (Txt ''M'') [(''overall_satisfaction_rating'', Num 1)],
          survey_row (Txt ''A'') (Txt ''F'') [(''overall_satisfaction_rating'', Num 2)],
          survey_row (Txt ''A'') (Txt ''F'') [],
          survey_row (Txt ''B'') (Txt ''F'') [(''overall_satisfaction_rating'', Num 3)]])
       Facility_dropdown [Txt ''A''] [all_sentinel] =
     Inr \<lparr>summary_card = Summary 3 (Some (3 / 2)) (Score (Some 3)),
          care_chart = Bar ''Average Care Satisfaction Scores''
           [(''overall_satisfaction_rating'', Some (3 / 2)),
            (''satisfaction_waiting_time'', None),
            (''Time with the health provider'', None),
            (''Privacy during examination'', None),
            (''Staff attitude'', None),
            (''Opening hours of the facility'', None),
            (''Quality of the advice and information'', None),
            (''satisfaction_procedure_treatment'', None)],
          facility_chart = Bar ''Average Facility Satisfaction Scores''
           [(''facility_cleanliness_rating'', None),
            (''facility_condition_rating'', None),
            (''facility_info_displayed_rating'', None),
            (''facility_private_talk_spaces_rating'', None),
            (''facility_ease_of_movement_rating'', None),
            (''facility_waiting_comfort_rating'', None)],
          facility_value = [Txt ''A''], sex_value = [all_sentinel]\<rparr>
   \<and> length (filtered_rows
       (survey_frame
         [survey_row (Txt ''A'') (Txt ''M'') [(''overall_satisfaction_rating'', Num 1)],
          survey_row (Txt ''A'') (Txt ''F'') [(''overall_satisfaction_rating'', Num 2)],
          survey_row (Txt ''A'') (Txt ''F'') [],
          survey_row (Txt ''B'') (Txt ''F'') [(''overall_satisfaction_rating'', Num 3)]])
       Facility_dropdown [Txt ''A''] [all_sentinel]) = 3
   \<and> mean_skipna (map (\<lambda>r. r ''overall_satisfaction_rating'') (filtered_rows
       (survey_frame
         [survey_row (Txt ''A'') (Txt ''M'') [(''overall_satisfaction_rating'', Num 1)],
          survey_row (Txt ''A'') (Txt ''F'') [(''overall_satisfaction_rating'', Num 2)],
          survey_row (Txt ''A'') (Txt ''F'') [],
          survey_row (Txt ''B'') (Txt ''F'') [(''overall_satisfaction_rating'', Num 3)]])
       Facility_dropdown [Txt ''A''] [all_sentinel])) = Some (3 / 2)"
proof -
  let ?df = "survey_frame
         [survey_row (Txt ''A'') (Txt ''M'') [(''overall_satisfaction_rating'', Num 1)],
          survey_row (Txt ''A'') (Txt ''F'') [(''overall_satisfaction_rating'', Num 2)],
          survey_row (Txt ''A'') (Txt ''F'') [],
          survey_row (Txt ''B'') (Txt ''F'') [(''overall_satisfaction_rating'', Num 3)]]"
  have e: "update_dashboard read_digits stable_sort_values ?df
             Facility_dropdown [Txt ''A''] [all_sentinel] =
     Inr \<lparr>summary_card = Summary 3 (Some (3 / 2)) (Score (Some 3)),
          care_chart = Bar ''Average Care Satisfaction Scores''
           [(''overall_satisfaction_rating'', Some (3 / 2)),
            (''satisfaction_waiting_time'', None),
            (''Time with the health provider'', None),
            (''Privacy during examination'', None),
            (''Staff attitude'', None),
            (''Opening hours of the facility'', None),
            (''Quality of the advice and information'', None),
            (''satisfaction_procedure_treatment'', None)],
          facility_chart = Bar ''Average Facility Satisfaction Scores''
           [(''facility_cleanliness_rating'', None),
            (''facility_condition_rating'', None),
            (''facility_info_displayed_rating'', None),
            (''facility_private_talk_spaces_rating'', None),
            (''facility_ease_of_movement_rating'', None),
            (''facility_waiting_comfort_rating'', None)],
          facility_value = [Txt ''A''], sex_value = [all_sentinel]\<rparr>"
    by (simp add: callback_defs example_defs column_defs sorter_defs Let_def)
  have l: "length (filtered_rows ?df Facility_dropdown [Txt ''A''] [all_sentinel]) = 3"
    by (simp add: filtered_rows_def filter_facility_def filter_sex_def isin_def all_sentinel_def
        example_defs)
  then have n: "filtered_rows ?df Facility_dropdown [Txt ''A''] [all_sentinel] \<noteq> []"
    by auto
  from means_skip_missing_entries [OF stable_sort_values_contract e n]
  obtain d where "Summary 3 (Some (3 / 2)) (Score (Some 3)) =
      Summary (length (filtered_rows ?df Facility_dropdown [Txt ''A''] [all_sentinel]))
        (mean_skipna (map (\<lambda>r. r ''overall_satisfaction_rating'')
           (filtered_rows ?df Facility_dropdown [Txt ''A''] [all_sentinel]))) d"
    by auto
  then have m: "mean_skipna (map (\<lambda>r. r ''overall_satisfaction_rating'')
           (filtered_rows ?df Facility_dropdown [Txt ''A''] [all_sentinel])) = Some (3 / 2)"
    by simp
  from stable_sort_values_contract e l m show ?thesis by blast
qed

text \<open>
  Claim C7 as stated fails on a table with one respondent and no rating at all: the subset
  has no number in any column, yet both charts are bar charts, with NaN for every column,
  and the summary shows the mean NaN.
\<close>

theorem no_numbers_no_placeholder:
  "update_dashboard read_digits stable_sort_values
     (survey_frame [survey_row (Txt ''A'') (Txt ''M'') []])
     No_trigger [all_sentinel] [all_sentinel] =
     Inr \<lparr>summary_card = Summary 1 None (Score None),
          care_chart = Bar ''Average Care Satisfaction Scores''
           [(''satisfaction_waiting_time'', None),
            (''Time with the health provider'', None),
            (''Privacy during examination'', None),
            (''Staff attitude'', None),
            (''Opening hours of the facility'', None),
            (''Quality of the advice and information'', None),
            (''satisfaction_procedure_treatment'', None),
            (''overall_satisfaction_rating'', None)],
          facility_chart = Bar ''Average Facility Satisfaction Scores''
           [(''facility_cleanliness_rating'', None),
            (''facility_condition_rating'', None),
            (''facility_info_displayed_rating'', None),
            (''facility_private_talk_spaces_rating'', None),
            (''facility_ease_of_movement_rating'', None),
            (''facility_waiting_comfort_rating'', None)],
          facility_value = [all_sentinel], sex_value = [all_sentinel]\<rparr>"
  by (simp add: callback_defs example_defs column_defs sorter_defs Let_def)

section \<open>The order of the charts\<close>

lemma mset_move_left: "mset (move_left x ys) = add_mset x (mset ys)"
  by (induction ys) auto

lemma set_move_left: "set (move_left x ys) = insert x (set ys)"
  by (induction ys) auto

lemma sorted_move_left:
  "sorted_wrt (\<lambda>a b. snd b \<le> snd a) ys \<Longrightarrow> sorted_wrt (\<lambda>a b. snd b \<le> snd a) (move_left x ys)"
  by (induction ys) (auto simp: set_move_left)

lemma filter_move_left:
  "filter (\<lambda>p. snd p = v) (move_left x ys) =
     (if snd x = v then x # filter (\<lambda>p. snd p = v) ys else filter (\<lambda>p. snd p = v) ys)"
  by (induction ys) auto

lemma foldl_move_left:
  "mset (foldl (\<lambda>sorted x. move_left x sorted) acc xs) = mset xs + mset acc
   \<and> (sorted_wrt (\<lambda>a b. snd b \<le> snd a) acc \<longrightarrow>
        sorted_wrt (\<lambda>a b. snd b \<le> snd a) (foldl (\<lambda>sorted x. move_left x sorted) acc xs))
   \<and> filter (\<lambda>p. snd p = v) (foldl (\<lambda>sorted x. move_left x sorted) acc xs) =
        rev (filter (\<lambda>p. snd p = v) xs) @ filter (\<lambda>p. snd p = v) acc"
  by (induction xs arbitrary: acc) (simp_all add: mset_move_left sorted_move_left filter_move_left)

lemma nargsort_descending:
  "mset (rev (argsort_small (rev xs))) = mset xs
   \<and> sorted_wrt (\<lambda>a b. snd b \<le> snd a) (rev (argsort_small (rev xs)))
   \<and> filter (\<lambda>p. snd p = v) (rev (argsort_small (rev xs))) = filter (\<lambda>p. snd p = v) xs"
  using foldl_move_left [of "[]" "rev xs" v]
  by (simp add: argsort_small_def rev_filter)

lemma mset_non_nans_nans:
  "mset (map (\<lambda>(col, x). (col, Some x)) (non_nans ms)) + mset (nans ms) = mset ms"
  by (induction ms rule: non_nans.induct) simp_all

lemma snd_nans: "p \<in> set (nans ms) \<Longrightarrow> snd p = None"
  by (induction ms rule: nans.induct) auto




lemma sort_values_descending_mset: "mset (sort_values_descending ms) = mset ms"
proof -
  have "mset (map (\<lambda>(col, x). (col, Some x)) (rev (argsort_small (rev (non_nans ms))))) =
        mset (map (\<lambda>(col, x). (col, Some x)) (non_nans ms))"
    using nargsort_descending [of "non_nans ms"] by (simp only: mset_map)
  then show ?thesis
    using mset_non_nans_nans [of ms] by (simp add: sort_values_descending_def)
qed

lemma sort_values_descending_sorted: "sorted_desc (sort_values_descending ms)"
proof -
  let ?xs = "rev (argsort_small (rev (non_nans ms)))"
  have "sorted_wrt (\<lambda>a b. snd b \<le> snd a) ?xs"
    using nargsort_descending [of "non_nans ms"] by blast
  then have "sorted_wrt (\<lambda>a b. mean_ge (snd a) (snd b)) (map (\<lambda>(col, x). (col, Some x)) ?xs)"
    by (simp add: sorted_wrt_map case_prod_unfold)
  moreover have "sorted_wrt (\<lambda>a b. mean_ge (snd a) (snd b)) (nans ms)"
    by (rule sorted_wrt_mono_rel [of _ "\<lambda>a b. True"]) (auto dest: snd_nans)
  ultimately show ?thesis
    by (auto simp: sort_values_descending_def sorted_desc_def sorted_wrt_append dest: snd_nans)
qed


lemma sort_values_descending_contract: "sort_values_contract sort_values_descending"
  by (simp add: sort_values_contract_def sort_values_descending_mset sort_values_descending_sorted)





end
